theory Spec2Isabelle
  imports Complex_Main
begin

section \<open>Tensor entries\<close>

text \<open>
  The program under study is \<^verbatim>\<open>whobpyt/models/RWW/wong_wang.py\<close>: the reduced
  Wong-Wang neural mass model with a Balloon-Windkessel BOLD stage, written with torch
  tensors of 32-bit floats.

  An entry of a tensor is modelled as a value of \<open>fval\<close>: a real number, one of the two
  infinities, or NaN.  Arithmetic on finite entries is exact real arithmetic, so rounding,
  overflow, underflow and the sign of zero are abstracted away; what is kept is where
  an operation leaves the reals (a division by zero, a root or a power outside its
  domain), because there torch returns an infinity or NaN without raising, and the
  value spreads through the rest of the computation.
\<close>

datatype fval = Fin real | PInf | NInf | NaN

fun is_fin :: "fval \<Rightarrow> bool" where
  "is_fin (Fin a) = True"
| "is_fin PInf = False"
| "is_fin NInf = False"
| "is_fin NaN = False"

fun fin_val :: "fval \<Rightarrow> real" where
  "fin_val (Fin a) = a"
| "fin_val PInf = 0"
| "fin_val NInf = 0"
| "fin_val NaN = 0"

instantiation fval :: "{plus, minus, uminus, times, inverse, abs}"
begin

fun plus_fval :: "fval \<Rightarrow> fval \<Rightarrow> fval" where
  "Fin a + Fin b = Fin (a + b)"
| "NaN + y = NaN"
| "x + NaN = NaN"
| "PInf + NInf = NaN"
| "NInf + PInf = NaN"
| "PInf + y = PInf"
| "x + PInf = PInf"
| "NInf + y = NInf"
| "x + NInf = NInf"

fun uminus_fval :: "fval \<Rightarrow> fval" where
  "- Fin a = Fin (- a)"
| "- PInf = NInf"
| "- NInf = PInf"
| "- NaN = NaN"

definition minus_fval :: "fval \<Rightarrow> fval \<Rightarrow> fval" where
  "minus_fval x y = x + (- y)"

fun times_fval :: "fval \<Rightarrow> fval \<Rightarrow> fval" where
  "Fin a * Fin b = Fin (a * b)"
| "NaN * y = NaN"
| "x * NaN = NaN"
| "Fin a * PInf = (if a = 0 then NaN else if 0 < a then PInf else NInf)"
| "Fin a * NInf = (if a = 0 then NaN else if 0 < a then NInf else PInf)"
| "PInf * Fin b = (if b = 0 then NaN else if 0 < b then PInf else NInf)"
| "NInf * Fin b = (if b = 0 then NaN else if 0 < b then NInf else PInf)"
| "PInf * PInf = PInf"
| "PInf * NInf = NInf"
| "NInf * PInf = NInf"
| "NInf * NInf = PInf"

fun divide_fval :: "fval \<Rightarrow> fval \<Rightarrow> fval" where
  "divide_fval (Fin a) (Fin b) =
     (if b \<noteq> 0 then Fin (a / b)
      else if a = 0 then NaN else if 0 < a then PInf else NInf)"
| "divide_fval NaN y = NaN"
| "divide_fval x NaN = NaN"
| "divide_fval (Fin a) PInf = Fin 0"
| "divide_fval (Fin a) NInf = Fin 0"
| "divide_fval PInf (Fin b) = (if 0 \<le> b then PInf else NInf)"
| "divide_fval NInf (Fin b) = (if 0 \<le> b then NInf else PInf)"
| "divide_fval PInf PInf = NaN"
| "divide_fval PInf NInf = NaN"
| "divide_fval NInf PInf = NaN"
| "divide_fval NInf NInf = NaN"

definition inverse_fval :: "fval \<Rightarrow> fval" where
  "inverse_fval x = divide (Fin 1) x"

fun abs_fval :: "fval \<Rightarrow> fval" where
  "\<bar>Fin a\<bar> = Fin \<bar>a\<bar>"
| "\<bar>PInf\<bar> = PInf"
| "\<bar>NInf\<bar> = PInf"
| "\<bar>NaN\<bar> = NaN"

instance ..

end

text \<open>\<^verbatim>\<open>torch.reciprocal\<close>, \<^verbatim>\<open>torch.exp\<close>, \<^verbatim>\<open>torch.tanh\<close>, \<^verbatim>\<open>torch.sqrt\<close>,
  \<^verbatim>\<open>torch.nn.ReLU\<close> and the comparison \<open><\<close> used in masked assignments.\<close>

definition torch_reciprocal :: "fval \<Rightarrow> fval" where
  "torch_reciprocal x = Fin 1 / x"

fun torch_exp :: "fval \<Rightarrow> fval" where
  "torch_exp (Fin a) = Fin (exp a)"
| "torch_exp PInf = PInf"
| "torch_exp NInf = Fin 0"
| "torch_exp NaN = NaN"

fun torch_tanh :: "fval \<Rightarrow> fval" where
  "torch_tanh (Fin a) = Fin (tanh a)"
| "torch_tanh PInf = Fin 1"
| "torch_tanh NInf = Fin (- 1)"
| "torch_tanh NaN = NaN"

fun torch_sqrt :: "fval \<Rightarrow> fval" where
  "torch_sqrt (Fin a) = (if 0 \<le> a then Fin (sqrt a) else NaN)"
| "torch_sqrt PInf = PInf"
| "torch_sqrt NInf = NaN"
| "torch_sqrt NaN = NaN"

definition relu_r :: "real \<Rightarrow> real" where
  "relu_r a = max 0 a"

fun relu :: "fval \<Rightarrow> fval" where
  "relu (Fin a) = Fin (relu_r a)"
| "relu PInf = PInf"
| "relu NInf = Fin 0"
| "relu NaN = NaN"

fun flt :: "fval \<Rightarrow> fval \<Rightarrow> bool" where
  "flt (Fin a) (Fin b) = (a < b)"
| "flt NaN y = False"
| "flt x NaN = False"
| "flt PInf y = False"
| "flt x NInf = False"
| "flt x PInf = True"
| "flt NInf y = True"

section \<open>Response function\<close>

text \<open>
  \<^verbatim>\<open>
  def h_tf(a, b, d, z):
      num = 0.00001 + torch.abs(a * z - b)
      den = 0.00001 * d + torch.abs(1.0000 - torch.exp(-d * (a * z - b)))
      return torch.divide(num, den)
  \<close>
\<close>

definition h_tf :: "fval \<Rightarrow> fval \<Rightarrow> fval \<Rightarrow> fval \<Rightarrow> fval" where
  "h_tf a b d z =
     (let num = Fin 0.00001 + \<bar>a * z - b\<bar>;
          den = Fin 0.00001 * d + \<bar>Fin 1.0000 - torch_exp (- d * (a * z - b))\<bar>
      in num / den)"

section \<open>Tensors\<close>

text \<open>
  A vector is a list of entries and a matrix a list of rows.  \<open>tab n f\<close> builds the
  vector \<open>[f 0, ..., f (n - 1)]\<close> and \<open>tab2 n k f\<close> the \<open>n \<times> k\<close> matrix with entry
  \<open>f i j\<close>; \<open>fsum\<close> is \<^verbatim>\<open>sum\<close> over a list of entries.  The functions below follow the
  source on tensors of the shapes its docstrings give (\<open>sc\<close> and \<open>gains_con\<close> are
  \<open>node_size \<times> node_size\<close>, \<open>hx\<close> is \<open>node_size \<times> 6\<close>); on other shapes torch raises or
  broadcasts, which is not modelled.
\<close>

definition tab :: "nat \<Rightarrow> (nat \<Rightarrow> 'a) \<Rightarrow> 'a list" where
  "tab n f = map f [0..<n]"

definition tab2 :: "nat \<Rightarrow> nat \<Rightarrow> (nat \<Rightarrow> nat \<Rightarrow> 'a) \<Rightarrow> 'a list list" where
  "tab2 n k f = tab n (\<lambda>i. tab k (f i))"

definition fsum :: "fval list \<Rightarrow> fval" where
  "fsum xs = foldr (+) xs (Fin 0)"

definition all_entries :: "('a \<Rightarrow> bool) \<Rightarrow> 'a list list \<Rightarrow> bool" where
  "all_entries P M = list_all (list_all P) M"

definition is_shape :: "nat \<Rightarrow> nat \<Rightarrow> 'a list list \<Rightarrow> bool" where
  "is_shape n k M = (length M = n \<and> list_all (\<lambda>row. length row = k) M)"

text \<open>\<^verbatim>\<open>torch.linalg.norm\<close> of a matrix (the Frobenius norm) and \<^verbatim>\<open>M.sum(1)\<close>.\<close>

definition linalg_norm :: "fval list list \<Rightarrow> fval" where
  "linalg_norm M = torch_sqrt (fsum (map (\<lambda>x. x * x) (concat M)))"

definition sum1 :: "fval list list \<Rightarrow> fval list" where
  "sum1 M = map fsum M"

section \<open>The parameter container\<close>

text \<open>
  Modelled from the spec: the classes \<^verbatim>\<open>par\<close> (\<^verbatim>\<open>whobpyt.datatypes.parameter\<close>) and
  \<^verbatim>\<open>ParamsRWW\<close> are imported by the source file and are not part of it.  Section 6 of the spec
  gives their contract: the container exposes enumerable named entries; an entry is fixed
  or trainable, and a trainable one (a \<^verbatim>\<open>par\<close>) exposes its current value, whether to fit it
  as a point estimate, whether to fit its hyperprior, its prior mean and variance, and a
  method that redraws its value from the prior.  The container is an association list in
  the order of \<^verbatim>\<open>dir\<close>; an entry that is not a \<^verbatim>\<open>par\<close> is \<open>Other\<close>.  The redraw of
  \<^verbatim>\<open>randSet\<close> is random: the drawn value is an argument.
\<close>

record par =
  val :: real
  prior_mean :: real
  prior_var :: real
  fit_par :: bool
  fit_hyper :: bool

datatype entry = Par par | Other

definition randSet :: "real \<Rightarrow> par \<Rightarrow> par" where
  "randSet drawn p = p\<lparr>val := drawn\<rparr>"

text \<open>
  The two lists of \<open>params_fitted\<close> hold tensor objects.  A tensor is named by where it
  comes from: \<open>New a\<close> is the \<^verbatim>\<open>Parameter\<close> that \<^verbatim>\<open>setModelParameters\<close> creates for the
  attribute \<open>a\<close>; \<open>Val a\<close>, \<open>PriorMean a\<close> and \<open>PriorVar a\<close> are the three tensors of
  the container entry \<open>a\<close>.
\<close>

datatype tensor_ref = New string | Val string | PriorMean string | PriorVar string

record fitted =
  modelparameter :: "tensor_ref list"
  hyperparameter :: "tensor_ref list"

section \<open>The model object\<close>

text \<open>
  The fields of \<open>RNNRWW\<close> set by \<^verbatim>\<open>__init__\<close>, the connection gains, and the coefficient
  attributes that \<^verbatim>\<open>setModelParameters\<close> copies from the parameter container and
  \<^verbatim>\<open>integration_forward\<close> reads (\<open>model.W_E\<close>, \<open>model.tau_E\<close>, ...).  The record gives every
  coefficient a value; in the source reading one before \<^verbatim>\<open>setModelParameters\<close> has set it
  raises AttributeError.  Coefficients are scalars.  \<open>param\<close> is the parameter container,
  \<open>attrs\<close> holds every other attribute that is set by name (\<open>E_m\<close>, \<open>sup_ca\<close>, ...), and
  \<open>params_fitted\<close> is the dictionary with the keys \<open>modelparameter\<close> and \<open>hyperparameter\<close>.
\<close>

record model =
  node_size :: nat
  TRs_per_window :: nat
  step_size :: real
  steps_per_TR :: int
  sampling_size :: nat
  tr :: real
  sc :: "real list list"
  sc_fitted :: "fval list list"
  use_fit_gains :: bool
  use_Laplacian :: bool
  use_Bifurcation :: bool
  use_Gaussian_EI :: bool
  use_dynamic_boundary :: bool
  gains_con :: "real list list"
  g :: real
  g_EE :: real
  g_IE :: real
  g_EI :: real
  W_E :: real
  W_I :: real
  I_0 :: real
  aE :: real
  bE :: real
  dE :: real
  aI :: real
  bI :: real
  dI :: real
  tau_E :: real
  tau_I :: real
  gamma_E :: real
  gamma_I :: real
  std_in :: real
  std_out :: real
  tau_s :: real
  tau_f :: real
  tau_0 :: real
  alpha :: real
  rho :: real
  V :: real
  E0 :: real
  k1 :: real
  k2 :: real
  k3 :: real
  param :: "(string \<times> entry) list"
  attrs :: "string \<rightharpoonup> real"
  params_fitted :: "fitted option"

section \<open>Construction\<close>

text \<open>
  \<^verbatim>\<open>RNNRWW.__init__\<close> (lines 54-102) sets the configuration on the object \<open>self\<close>.
  \<^verbatim>\<open>int(tr / step_size)\<close> divides two Python floats, which raises ZeroDivisionError for a
  zero step, and \<^verbatim>\<open>int\<close> truncates towards zero.
\<close>

datatype error = ZeroDivisionError | RuntimeError



section \<open>Parameter materializer\<close>

text \<open>
  \<^verbatim>\<open>setattr(model, var_name, var.val)\<close>: a coefficient that \<^verbatim>\<open>integration_forward\<close> reads is
  a field of the record, every other name goes to \<open>attrs\<close>.  The names of the container
  are taken to differ from the attributes the source sets itself (\<open>gains_con\<close>, \<open>sc\<close>, ...).
\<close>

definition setattr :: "string \<Rightarrow> real \<Rightarrow> model \<Rightarrow> model" where
  "setattr name a m =
     (if name = ''g'' then m\<lparr>g := a\<rparr> else if name = ''g_EE'' then m\<lparr>g_EE := a\<rparr>
      else if name = ''g_IE'' then m\<lparr>g_IE := a\<rparr> else if name = ''g_EI'' then m\<lparr>g_EI := a\<rparr>
      else if name = ''W_E'' then m\<lparr>W_E := a\<rparr> else if name = ''W_I'' then m\<lparr>W_I := a\<rparr>
      else if name = ''I_0'' then m\<lparr>I_0 := a\<rparr>
      else if name = ''aE'' then m\<lparr>aE := a\<rparr> else if name = ''bE'' then m\<lparr>bE := a\<rparr>
      else if name = ''dE'' then m\<lparr>dE := a\<rparr> else if name = ''aI'' then m\<lparr>aI := a\<rparr>
      else if name = ''bI'' then m\<lparr>bI := a\<rparr> else if name = ''dI'' then m\<lparr>dI := a\<rparr>
      else if name = ''tau_E'' then m\<lparr>tau_E := a\<rparr> else if name = ''tau_I'' then m\<lparr>tau_I := a\<rparr>
      else if name = ''gamma_E'' then m\<lparr>gamma_E := a\<rparr>
      else if name = ''gamma_I'' then m\<lparr>gamma_I := a\<rparr>
      else if name = ''std_in'' then m\<lparr>std_in := a\<rparr>
      else if name = ''std_out'' then m\<lparr>std_out := a\<rparr>
      else if name = ''tau_s'' then m\<lparr>tau_s := a\<rparr> else if name = ''tau_f'' then m\<lparr>tau_f := a\<rparr>
      else if name = ''tau_0'' then m\<lparr>tau_0 := a\<rparr> else if name = ''alpha'' then m\<lparr>alpha := a\<rparr>
      else if name = ''rho'' then m\<lparr>rho := a\<rparr> else if name = ''V'' then m\<lparr>V := a\<rparr>
      else if name = ''E0'' then m\<lparr>E0 := a\<rparr> else if name = ''k1'' then m\<lparr>k1 := a\<rparr>
      else if name = ''k2'' then m\<lparr>k2 := a\<rparr> else if name = ''k3'' then m\<lparr>k3 := a\<rparr>
      else m\<lparr>attrs := (attrs m)(name \<mapsto> a)\<rparr>)"

text \<open>The object \<open>var\<close> of the container is changed in place by \<open>var.randSet()\<close>.\<close>

definition set_entry :: "string \<Rightarrow> entry \<Rightarrow> (string \<times> entry) list \<Rightarrow> (string \<times> entry) list" where
  "set_entry name e ps = map (\<lambda>(k, old). if k = name then (k, e) else (k, old)) ps"

text \<open>
  The body of the loop at lines 175-184, for one \<open>var_name\<close>; the state is the model and the
  two lists \<open>param_reg\<close> and \<open>param_hyper\<close>.
\<close>

definition param_step ::
  "(string \<Rightarrow> real) \<Rightarrow> string \<Rightarrow> model \<times> tensor_ref list \<times> tensor_ref list
   \<Rightarrow> model \<times> tensor_ref list \<times> tensor_ref list" where
  "param_step draw var_name st =
     (case st of (model, param_reg, param_hyper) \<Rightarrow>
        (case map_of (param model) var_name of
           Some (Par var) \<Rightarrow>
             (let (var1, param_hyper1) =
                    (if fit_hyper var = True
                     then (randSet (draw var_name) var,
                           param_hyper @ [PriorMean var_name] @ [PriorVar var_name])
                     else (var, param_hyper));
                  param_reg1 =
                    (if fit_par var1 = True then param_reg @ [Val var_name] else param_reg)
              in (setattr var_name (val var1)
                    (model\<lparr>param := set_entry var_name (Par var1) (param model)\<rparr>),
                  param_reg1, param_hyper1))
         | _ \<Rightarrow> (model, param_reg, param_hyper)))"

text \<open>
  \<^verbatim>\<open>setModelParameters\<close> (lines 130-186).  Under \<open>use_Gaussian_EI\<close> eight Parameters are
  created and eight appends are made to \<open>param_hyper\<close>; the last append, after the creation
  of \<open>q_v_inv\<close>, is \<^verbatim>\<open>param_hyper.append(model.v_v_inv)\<close> (line 154).  The gains are
  \<^verbatim>\<open>np.zeros((node_size, node_size)) + 0.05\<close> when they are fitted.
\<close>

definition setModelParameters :: "(string \<Rightarrow> real) \<Rightarrow> model \<Rightarrow> model" where
  "setModelParameters draw model0 =
     (let param_reg = [];
          param_hyper = [];
          (model1, param_hyper1) =
            (if use_Gaussian_EI model0 then
               (let m1 = setattr ''E_m'' 0.16 model0;
                    h1 = param_hyper @ [New ''E_m''];
                    m2 = setattr ''I_m'' 0.1 m1;
                    h2 = h1 @ [New ''I_m''];
                    m3 = setattr ''v_m'' 1.0 m2;
                    h3 = h2 @ [New ''v_m''];
                    m4 = setattr ''q_m'' 1.0 m3;
                    h4 = h3 @ [New ''q_m''];
                    m5 = setattr ''E_v_inv'' 2500 m4;
                    h5 = h4 @ [New ''E_v_inv''];
                    m6 = setattr ''I_v_inv'' 2500 m5;
                    h6 = h5 @ [New ''I_v_inv''];
                    m7 = setattr ''v_v_inv'' 100 m6;
                    h7 = h6 @ [New ''v_v_inv''];
                    m8 = setattr ''q_v_inv'' 100 m7;
                    h8 = h7 @ [New ''v_v_inv'']
                in (m8, h8))
             else (model0, param_hyper));
          (model2, param_hyper2) =
            (if use_Bifurcation model1 then
               (let m1 = setattr ''sup_ca'' 0.5 model1;
                    h1 = param_hyper1 @ [New ''sup_ca''];
                    m2 = setattr ''sup_cb'' 20 m1;
                    h2 = h1 @ [New ''sup_cb''];
                    m3 = setattr ''sup_cc'' 10 m2;
                    h3 = h2 @ [New ''sup_cc'']
                in (m3, h3))
             else (model1, param_hyper1));
          (model3, param_reg3) =
            (if use_fit_gains model2 then
               (model2\<lparr>gains_con :=
                   tab2 (node_size model2) (node_size model2) (\<lambda>i j. 0 + 0.05)\<rparr>,
                param_reg @ [New ''gains_con''])
             else
               (model2\<lparr>gains_con := tab2 (node_size model2) (node_size model2) (\<lambda>i j. 0)\<rparr>,
                param_reg));
          var_names = filter (\<lambda>a. take 2 a \<noteq> ''__'') (map fst (param model3));
          (model4, param_reg4, param_hyper4) =
            fold (param_step draw) var_names (model3, param_reg3, param_hyper2)
      in model4\<lparr>params_fitted :=
           Some \<lparr>modelparameter = param_reg4, hyperparameter = param_hyper4\<rparr>\<rparr>)"

section \<open>Coupling matrix\<close>

text \<open>
  Lines 220-234 of \<^verbatim>\<open>integration_forward\<close>:
  \<^verbatim>\<open>
  if model.sc.shape[0] > 1:
      sc_mod = torch.exp(model.gains_con) * torch.tensor(model.sc, dtype=torch.float32)
      sc_mod_normalized = (0.5 * (sc_mod + torch.transpose(sc_mod, 0, 1))) / torch.linalg.norm(
          0.5 * (sc_mod + torch.transpose(sc_mod, 0, 1)))
      model.sc_fitted = sc_mod_normalized
      if model.use_Laplacian:
          lap_adj = -torch.diag(sc_mod_normalized.sum(1)) + sc_mod_normalized
      else:
          lap_adj = sc_mod_normalized
  else:
      lap_adj = torch.tensor(np.zeros((1, 1)), dtype=torch.float32)
  \<close>
\<close>

definition sc_mod :: "model \<Rightarrow> fval list list" where
  "sc_mod m =
     (let n = length (sc m)
      in tab2 n n (\<lambda>i j. torch_exp (Fin (gains_con m ! i ! j)) * Fin (sc m ! i ! j)))"

text \<open>\<open>0.5 * (sc_mod + torch.transpose(sc_mod, 0, 1))\<close>\<close>

definition sc_sym :: "model \<Rightarrow> fval list list" where
  "sc_sym m =
     (let n = length (sc m)
      in tab2 n n (\<lambda>i j. Fin 0.5 * (sc_mod m ! i ! j + sc_mod m ! j ! i)))"

definition sc_mod_normalized :: "model \<Rightarrow> fval list list" where
  "sc_mod_normalized m = map (map (\<lambda>b. b / linalg_norm (sc_sym m))) (sc_sym m)"

text \<open>\<^verbatim>\<open>torch.diag\<close> of a vector.\<close>

definition torch_diag :: "fval list \<Rightarrow> fval list list" where
  "torch_diag d = tab2 (length d) (length d) (\<lambda>i j. if i = j then d ! i else Fin 0)"

definition lap_adj :: "model \<Rightarrow> fval list list" where
  "lap_adj m =
     (if length (sc m) > 1 then
        (if use_Laplacian m then
           (let n = length (sc m)
            in tab2 n n (\<lambda>i j. - (torch_diag (sum1 (sc_mod_normalized m)) ! i ! j)
                                 + sc_mod_normalized m ! i ! j))
         else sc_mod_normalized m)
      else [[Fin 0]])"

section \<open>Forward integration\<close>

text \<open>
  \<^verbatim>\<open>torch.pow\<close> on entries (the cases of C \<open>pow\<close>), \<^verbatim>\<open>torch.matmul\<close>, \<^verbatim>\<open>M.mean(1)\<close>, and
  the masked assignment \<^verbatim>\<open>t[t < c] = c\<close>, which leaves a NaN entry as it is because the
  comparison is false for NaN.
\<close>

definition torch_pow :: "fval \<Rightarrow> fval \<Rightarrow> fval" where
  "torch_pow x y =
     (if y = Fin 0 \<or> x = Fin 1 then Fin 1
      else case (x, y) of
        (NaN, _) \<Rightarrow> NaN
      | (_, NaN) \<Rightarrow> NaN
      | (Fin a, Fin b) \<Rightarrow>
          (if 0 < a then Fin (a powr b)
           else if a = 0 then (if 0 < b then Fin 0 else PInf)
           else if of_int \<lfloor>b\<rfloor> = b
             then Fin ((if even \<lfloor>b\<rfloor> then 1 else - 1) * (\<bar>a\<bar> powr b))
             else NaN)
      | (Fin a, PInf) \<Rightarrow> (if \<bar>a\<bar> < 1 then Fin 0 else if \<bar>a\<bar> = 1 then Fin 1 else PInf)
      | (Fin a, NInf) \<Rightarrow> (if \<bar>a\<bar> < 1 then PInf else if \<bar>a\<bar> = 1 then Fin 1 else Fin 0)
      | (PInf, Fin b) \<Rightarrow> (if 0 < b then PInf else Fin 0)
      | (PInf, PInf) \<Rightarrow> PInf
      | (PInf, NInf) \<Rightarrow> Fin 0
      | (NInf, Fin b) \<Rightarrow>
          (if 0 < b then (if of_int \<lfloor>b\<rfloor> = b \<and> odd \<lfloor>b\<rfloor> then NInf else PInf) else Fin 0)
      | (NInf, PInf) \<Rightarrow> PInf
      | (NInf, NInf) \<Rightarrow> Fin 0)"

definition matmul :: "fval list list \<Rightarrow> fval list list \<Rightarrow> fval list list" where
  "matmul A B =
     tab2 (length A) (if B = [] then 0 else length (hd B))
       (\<lambda>r s. fsum (tab (length B) (\<lambda>k. A ! r ! k * B ! k ! s)))"

definition mean1 :: "fval list list \<Rightarrow> fval list" where
  "mean1 M = map (\<lambda>row. fsum row / Fin (real (length row))) M"

definition mask_floor :: "real \<Rightarrow> fval list \<Rightarrow> fval list" where
  "mask_floor c xs = map (\<lambda>a. if flt a (Fin c) then Fin c else a) xs"

text \<open>
  The draws of \<^verbatim>\<open>torch.randn\<close> are arguments of the model: \<open>randn_E\<close> and \<open>randn_I\<close>
  are the draws of the sampling loop (indexed by period, step, sample and region),
  \<open>randn_dE\<close> and \<open>randn_dI\<close> the state noise of the update (period, step, region,
  sample), and \<open>randn_bold\<close> the observation noise (period, region).
\<close>

record noise =
  randn_E :: "nat \<Rightarrow> nat \<Rightarrow> nat \<Rightarrow> nat \<Rightarrow> real"
  randn_I :: "nat \<Rightarrow> nat \<Rightarrow> nat \<Rightarrow> nat \<Rightarrow> real"
  randn_dE :: "nat \<Rightarrow> nat \<Rightarrow> nat \<Rightarrow> nat \<Rightarrow> real"
  randn_dI :: "nat \<Rightarrow> nat \<Rightarrow> nat \<Rightarrow> nat \<Rightarrow> real"
  randn_bold :: "nat \<Rightarrow> nat \<Rightarrow> real"

text \<open>
  The state of the neural loops: the running means (\<open>node_size\<close> entries each) and the
  two history buffers of shape \<open>node_size \<times> TRs_per_window \<times> steps_per_TR\<close>.
  \<open>hist_set h TR_i step_i a\<close> is the assignment \<^verbatim>\<open>h[:, TR_i, step_i] = a[:, 0]\<close>.
\<close>

record neural =
  E_mean :: "fval list"
  I_mean :: "fval list"
  E_hist :: "fval list list list"
  I_hist :: "fval list list list"

definition hist_set :: "fval list list list \<Rightarrow> nat \<Rightarrow> nat \<Rightarrow> fval list \<Rightarrow> fval list list list" where
  "hist_set h TR_i step_i a =
     tab (length h) (\<lambda>r. (h ! r)[TR_i := (h ! r ! TR_i)[step_i := a ! r]])"

text \<open>The sampling loop (lines 263-267 and 337-341); \<open>sd\<close> is 0.02 or 0.001.\<close>

definition draw_samples ::
  "model \<Rightarrow> real \<Rightarrow> (nat \<Rightarrow> nat \<Rightarrow> real) \<Rightarrow> fval list \<Rightarrow> fval list list" where
  "draw_samples m sd rnd mean =
     tab2 (node_size m) (sampling_size m) (\<lambda>r sample_i. mean ! r + Fin sd * Fin (rnd sample_i r))"

text \<open>Lines 270-273 (and 344-348): the input currents of both populations.\<close>

definition input_IE :: "model \<Rightarrow> fval list list \<Rightarrow> fval list list \<Rightarrow> fval list list \<Rightarrow> fval list list" where
  "input_IE m L E I =
     tab2 (node_size m) (sampling_size m) (\<lambda>r s.
       torch_tanh (relu (Fin (W_E m) * Fin (I_0 m) + (Fin 0.001 + relu (Fin (g_EE m))) * E ! r ! s
                         + Fin (g m) * matmul L E ! r ! s
                         - (Fin 0.001 + relu (Fin (g_IE m))) * I ! r ! s)))"

definition input_II :: "model \<Rightarrow> fval list list \<Rightarrow> fval list list \<Rightarrow> fval list list" where
  "input_II m E I =
     tab2 (node_size m) (sampling_size m) (\<lambda>r s.
       torch_tanh (relu (Fin (W_I m) * Fin (I_0 m) + (Fin 0.001 + relu (Fin (g_EI m))) * E ! r ! s
                         - I ! r ! s)))"

text \<open>Lines 276-284 (and 351-359): firing rates and the Euler update with state noise.\<close>

definition next_E :: "model \<Rightarrow> (nat \<Rightarrow> nat \<Rightarrow> real) \<Rightarrow> fval list list \<Rightarrow> fval list list \<Rightarrow> fval list list" where
  "next_E m rnd E IE =
     (let dt = Fin (step_size m)
      in tab2 (node_size m) (sampling_size m) (\<lambda>r s.
           (let rE = h_tf (Fin (aE m)) (Fin (bE m)) (Fin (dE m)) (IE ! r ! s)
            in E ! r ! s
               + dt * (- (E ! r ! s) * torch_reciprocal (Fin (tau_E m))
                       + Fin (gamma_E m) * (Fin 1 - E ! r ! s) * rE)
               + torch_sqrt dt * Fin (rnd r s) * (Fin 0.02 + relu (Fin (std_in m))))))"

definition next_I :: "model \<Rightarrow> (nat \<Rightarrow> nat \<Rightarrow> real) \<Rightarrow> fval list list \<Rightarrow> fval list list \<Rightarrow> fval list list" where
  "next_I m rnd I II =
     (let dt = Fin (step_size m)
      in tab2 (node_size m) (sampling_size m) (\<lambda>r s.
           (let rI = h_tf (Fin (aI m)) (Fin (bI m)) (Fin (dI m)) (II ! r ! s)
            in I ! r ! s
               + dt * (- (I ! r ! s) * torch_reciprocal (Fin (tau_I m)) + Fin (gamma_I m) * rI)
               + torch_sqrt dt * Fin (rnd r s) * (Fin 0.02 + relu (Fin (std_in m))))))"

text \<open>
  One fine step of the neural loop under \<open>use_dynamic_boundary\<close> (lines 263-298): both
  populations are passed through \<^verbatim>\<open>tanh(0.0000 + m(1.0 * .))\<close>, averaged over the
  samples, and the means are floored at 0.00001 and written to the histories.
\<close>

definition neural_step_dyn ::
  "model \<Rightarrow> fval list list \<Rightarrow> noise \<Rightarrow> nat \<Rightarrow> nat \<Rightarrow> neural \<Rightarrow> neural" where
  "neural_step_dyn m L nz TR_i step_i st =
     (let E = draw_samples m 0.02 (randn_E nz TR_i step_i) (E_mean st);
          I = draw_samples m 0.001 (randn_I nz TR_i step_i) (I_mean st);
          IE = input_IE m L E I;
          II = input_II m E I;
          E_next = next_E m (randn_dE nz TR_i step_i) E IE;
          I_next = next_I m (randn_dI nz TR_i step_i) I II;
          E1 = map (map (\<lambda>a. torch_tanh (Fin 0.0000 + relu (Fin 1.0 * a)))) E_next;
          I1 = map (map (\<lambda>a. torch_tanh (Fin 0.0000 + relu (Fin 1.0 * a)))) I_next;
          I_mean1 = mask_floor 0.00001 (mean1 I1);
          E_mean1 = mask_floor 0.00001 (mean1 E1)
      in \<lparr>E_mean = E_mean1, I_mean = I_mean1,
          E_hist = hist_set (E_hist st) TR_i step_i E_mean1,
          I_hist = hist_set (I_hist st) TR_i step_i I_mean1\<rparr>)"

text \<open>
  The same step without \<open>use_dynamic_boundary\<close> (lines 337-371): the samples are floored
  at 0.00001, and the histories record \<^verbatim>\<open>tanh\<close> of the means.
\<close>

definition neural_step_hard ::
  "model \<Rightarrow> fval list list \<Rightarrow> noise \<Rightarrow> nat \<Rightarrow> nat \<Rightarrow> neural \<Rightarrow> neural" where
  "neural_step_hard m L nz TR_i step_i st =
     (let E = draw_samples m 0.001 (randn_E nz TR_i step_i) (E_mean st);
          I = draw_samples m 0.001 (randn_I nz TR_i step_i) (I_mean st);
          IE = input_IE m L E I;
          II = input_II m E I;
          E_next = map (mask_floor 0.00001) (next_E m (randn_dE nz TR_i step_i) E IE);
          I_next = map (mask_floor 0.00001) (next_I m (randn_dI nz TR_i step_i) I II);
          I_mean1 = mean1 I_next;
          E_mean1 = mean1 E_next
      in \<lparr>E_mean = E_mean1, I_mean = I_mean1,
          E_hist = hist_set (E_hist st) TR_i step_i (map torch_tanh E_mean1),
          I_hist = hist_set (I_hist st) TR_i step_i (map torch_tanh I_mean1)\<rparr>)"

text \<open>
  The state of the hemodynamic loops: the four states (\<open>node_size\<close> entries each) and the
  per-period windows of shape \<open>node_size \<times> TRs_per_window\<close>.
  \<open>col_set w TR_i a\<close> is the assignment \<^verbatim>\<open>w[:, TR_i] = a[:, 0]\<close>.
\<close>

record hemo =
  x_st :: "fval list"
  f_st :: "fval list"
  v_st :: "fval list"
  q_st :: "fval list"
  x_win :: "fval list list"
  f_win :: "fval list list"
  v_win :: "fval list list"
  q_win :: "fval list list"
  bold_win :: "fval list list"

definition col_set :: "fval list list \<Rightarrow> nat \<Rightarrow> fval list \<Rightarrow> fval list list" where
  "col_set w TR_i a = tab (length w) (\<lambda>r. (w ! r)[TR_i := a ! r])"

text \<open>The Euler updates \<open>x_next\<close>, \<open>f_next\<close>, \<open>v_next\<close>, \<open>q_next\<close> (lines 303-311 and 379-387).\<close>

definition x_next :: "model \<Rightarrow> fval list list list \<Rightarrow> nat \<Rightarrow> nat \<Rightarrow> hemo \<Rightarrow> fval list" where
  "x_next m Eh TR_i step_i st =
     (let dt = Fin (step_size m)
      in tab (node_size m) (\<lambda>r.
           x_st st ! r
           + Fin 1 * dt * (Fin 1 * Eh ! r ! TR_i ! step_i
                           - torch_reciprocal (Fin (tau_s m)) * x_st st ! r
                           - torch_reciprocal (Fin (tau_f m)) * (f_st st ! r - Fin 1))))"

definition f_next :: "model \<Rightarrow> hemo \<Rightarrow> fval list" where
  "f_next m st =
     (let dt = Fin (step_size m)
      in tab (node_size m) (\<lambda>r. f_st st ! r + Fin 1 * dt * x_st st ! r))"

definition v_next :: "model \<Rightarrow> hemo \<Rightarrow> fval list" where
  "v_next m st =
     (let dt = Fin (step_size m)
      in tab (node_size m) (\<lambda>r.
           v_st st ! r
           + Fin 1 * dt * (f_st st ! r - torch_pow (v_st st ! r) (torch_reciprocal (Fin (alpha m))))
             * torch_reciprocal (Fin (tau_0 m))))"

definition q_next :: "model \<Rightarrow> hemo \<Rightarrow> fval list" where
  "q_next m st =
     (let dt = Fin (step_size m)
      in tab (node_size m) (\<lambda>r.
           q_st st ! r
           + Fin 1 * dt
             * (f_st st ! r
                  * (Fin 1 - torch_pow (Fin 1 - Fin (rho m)) (torch_reciprocal (f_st st ! r)))
                  * torch_reciprocal (Fin (rho m))
                - q_st st ! r * torch_pow (v_st st ! r) (torch_reciprocal (Fin (alpha m)))
                  * torch_reciprocal (v_st st ! r))
             * torch_reciprocal (Fin (tau_0 m))))"

text \<open>Lines 313-316: the smooth saturation of the four states.\<close>

definition hemo_step_dyn :: "model \<Rightarrow> fval list list list \<Rightarrow> nat \<Rightarrow> nat \<Rightarrow> hemo \<Rightarrow> hemo" where
  "hemo_step_dyn m Eh TR_i step_i st =
     st\<lparr>x_st := map torch_tanh (x_next m Eh TR_i step_i st),
        f_st := map (\<lambda>a. Fin 1 + torch_tanh (a - Fin 1)) (f_next m st),
        v_st := map (\<lambda>a. Fin 1 + torch_tanh (a - Fin 1)) (v_next m st),
        q_st := map (\<lambda>a. Fin 1 + torch_tanh (a - Fin 1)) (q_next m st)\<rparr>"

text \<open>Lines 389-395: the floor 0.001 on \<open>f\<close>, \<open>v\<close> and \<open>q\<close>; \<open>x\<close> is taken as it is.\<close>

definition hemo_step_hard :: "model \<Rightarrow> fval list list list \<Rightarrow> nat \<Rightarrow> nat \<Rightarrow> hemo \<Rightarrow> hemo" where
  "hemo_step_hard m Eh TR_i step_i st =
     st\<lparr>x_st := x_next m Eh TR_i step_i st,
        f_st := mask_floor 0.001 (f_next m st),
        v_st := mask_floor 0.001 (v_next m st),
        q_st := mask_floor 0.001 (q_next m st)\<rparr>"

text \<open>The end of a period (lines 318-328 and 397-406): the windows and the BOLD sample.\<close>

definition bold_sample :: "model \<Rightarrow> noise \<Rightarrow> nat \<Rightarrow> hemo \<Rightarrow> fval list" where
  "bold_sample m nz TR_i st =
     tab (node_size m) (\<lambda>r.
       (Fin 0.00 + relu (Fin (std_out m))) * Fin (randn_bold nz TR_i r)
       + Fin 100.0 * Fin (V m) * torch_reciprocal (Fin (E0 m))
         * (Fin (k1 m) * (Fin 1 - q_st st ! r)
            + Fin (k2 m) * (Fin 1 - q_st st ! r * torch_reciprocal (v_st st ! r))
            + Fin (k3 m) * (Fin 1 - v_st st ! r)))"

definition end_of_TR :: "model \<Rightarrow> noise \<Rightarrow> nat \<Rightarrow> hemo \<Rightarrow> hemo" where
  "end_of_TR m nz TR_i st =
     st\<lparr>x_win := col_set (x_win st) TR_i (x_st st),
        f_win := col_set (f_win st) TR_i (f_st st),
        v_win := col_set (v_win st) TR_i (v_st st),
        q_win := col_set (q_win st) TR_i (q_st st),
        bold_win := col_set (bold_win st) TR_i (bold_sample m nz TR_i st)\<rparr>"

text \<open>
  The nested loops \<^verbatim>\<open>for TR_i in range(TRs_per_window): for step_i in range(steps_per_TR)\<close>
  of the neural stage and of the hemodynamic stage; the latter closes every period with
  \<open>end_of_TR\<close>.
\<close>

definition neural_loops :: "model \<Rightarrow> (nat \<Rightarrow> nat \<Rightarrow> neural \<Rightarrow> neural) \<Rightarrow> neural \<Rightarrow> neural" where
  "neural_loops m step st0 =
     fold (\<lambda>TR_i st. fold (\<lambda>step_i. step TR_i step_i) [0..<nat (steps_per_TR m)] st)
       [0..<TRs_per_window m] st0"

definition hemo_loops ::
  "model \<Rightarrow> noise \<Rightarrow> (nat \<Rightarrow> nat \<Rightarrow> hemo \<Rightarrow> hemo) \<Rightarrow> hemo \<Rightarrow> hemo" where
  "hemo_loops m nz step st0 =
     fold (\<lambda>TR_i st.
             end_of_TR m nz TR_i (fold (\<lambda>step_i. step TR_i step_i) [0..<nat (steps_per_TR m)] st))
       [0..<TRs_per_window m] st0"

text \<open>The dictionary \<open>next_state\<close> that \<^verbatim>\<open>integration_forward\<close> returns.\<close>

record outputs =
  current_state :: "fval list list"
  bold_window :: "fval list list"
  E_window :: "fval list list"
  I_window :: "fval list list"
  x_window :: "fval list list"
  f_window :: "fval list list"
  v_window :: "fval list list"
  q_window :: "fval list list"

text \<open>
  \<^verbatim>\<open>integration_forward(model, external, hx, hE)\<close> (lines 188-420).  The function mutates
  \<open>model.sc_fitted\<close>, so the model is returned with the result.  Two calls raise:
  \<^verbatim>\<open>torch.zeros\<close> with a negative \<open>steps_per_TR\<close> (line 250), and
  \<^verbatim>\<open>E_hist.reshape((model.node_size, -1))\<close> for \<open>node_size = 0\<close> (line 413), where the
  size \<open>-1\<close> stands for is ambiguous.
\<close>

definition integration_forward ::
  "model \<Rightarrow> noise \<Rightarrow> 'e \<Rightarrow> fval list list \<Rightarrow> 'h \<Rightarrow> error + (outputs \<times> 'h) \<times> model" where
  "integration_forward model nz external hx hE =
     (let x = map (\<lambda>row. row ! 2) hx;
          f = map (\<lambda>row. row ! 3) hx;
          v = map (\<lambda>row. row ! 4) hx;
          q = map (\<lambda>row. row ! 5) hx;
          L = lap_adj model;
          model1 = (if length (sc model) > 1
                    then model\<lparr>sc_fitted := sc_mod_normalized model\<rparr> else model)
      in if steps_per_TR model1 < 0 then Inl RuntimeError
         else
           (let n = node_size model1;
                T = TRs_per_window model1;
                K = nat (steps_per_TR model1);
                zeros = tab2 n T (\<lambda>r TR_i. Fin 0);
                hist0 = tab n (\<lambda>r. tab2 T K (\<lambda>TR_i step_i. Fin 0));
                nst0 = \<lparr>E_mean = map (\<lambda>row. row ! 0) hx, I_mean = map (\<lambda>row. row ! 1) hx,
                        E_hist = hist0, I_hist = hist0\<rparr>;
                hst0 = \<lparr>x_st = x, f_st = f, v_st = v, q_st = q,
                        x_win = zeros, f_win = zeros, v_win = zeros, q_win = zeros,
                        bold_win = zeros\<rparr>;
                (nst, hst) =
                  (if use_dynamic_boundary model1 then
                     (let nst = neural_loops model1 (neural_step_dyn model1 L nz) nst0
                      in (nst, hemo_loops model1 nz (hemo_step_dyn model1 (E_hist nst)) hst0))
                   else
                     (let nst = neural_loops model1 (neural_step_hard model1 L nz) nst0
                      in (nst, hemo_loops model1 nz (hemo_step_hard model1 (E_hist nst)) hst0)));
                next_state =
                  \<lparr>current_state =
                     tab n (\<lambda>r. [E_mean nst ! r, I_mean nst ! r,
                                  x_st hst ! r, f_st hst ! r, v_st hst ! r, q_st hst ! r]),
                   bold_window = bold_win hst,
                   E_window = map concat (E_hist nst),
                   I_window = map concat (I_hist nst),
                   x_window = x_win hst,
                   f_window = f_win hst,
                   v_window = v_win hst,
                   q_window = q_win hst\<rparr>
            in if n = 0 then Inl RuntimeError else Inr ((next_state, hE), model1)))"

section \<open>Predicates of the statements\<close>


definition has_positive :: "real list list \<Rightarrow> bool" where
  "has_positive S = list_ex (list_ex (\<lambda>s. 0 < s)) S"

definition sumsq :: "fval list \<Rightarrow> real" where
  "sumsq xs = sum_list (map (\<lambda>x. fin_val x * fin_val x) xs)"

text \<open>
  A model for the examples: two regions joined by one edge, one period of one step with
  one sample, and coefficients of the usual order of magnitude.
\<close>

definition example_model :: model where
  "example_model =
     \<lparr>node_size = 2, TRs_per_window = 1, step_size = 0.05, steps_per_TR = 1,
      sampling_size = 1, tr = 0.05, sc = [[0, 1], [1, 0]],
      sc_fitted = [[Fin 0, Fin 1], [Fin 1, Fin 0]],
      use_fit_gains = False, use_Laplacian = True, use_Bifurcation = False,
      use_Gaussian_EI = False, use_dynamic_boundary = True,
      gains_con = [[0, 0], [0, 0]],
      g = 100, g_EE = 2.5, g_IE = 0.42, g_EI = 0.42, W_E = 1, W_I = 0.7, I_0 = 0.32,
      aE = 310, bE = 125, dE = 0.16, aI = 615, bI = 177, dI = 0.087,
      tau_E = 100, tau_I = 10, gamma_E = 0.000641, gamma_I = 0.001,
      std_in = 0.02, std_out = 0.02, tau_s = 0.65, tau_f = 0.41, tau_0 = 0.98,
      alpha = 0.32, rho = 0.34, V = 0.02, E0 = 0.34, k1 = 2.38, k2 = 2.0, k3 = 0.48,
      param = [], attrs = Map.empty, params_fitted = None\<rparr>"


text \<open>The example model with the hyperprior on the states, and with gain fitting.\<close>

definition gaussian_model :: model where
  "gaussian_model = example_model\<lparr>use_Gaussian_EI := True\<rparr>"

definition fit_gains_model :: model where
  "fit_gains_model = example_model\<lparr>use_fit_gains := True\<rparr>"

text \<open>An initial state and noise for the examples: every region at \<open>(0.1, 0.1, 0, 1, 1, 1)\<close>, all draws 0.\<close>

definition example_hx :: "fval list list" where
  "example_hx = [[Fin 0.1, Fin 0.1, Fin 0, Fin 1, Fin 1, Fin 1],
                 [Fin 0.1, Fin 0.1, Fin 0, Fin 1, Fin 1, Fin 1]]"

definition zero_noise :: noise where
  "zero_noise = \<lparr>randn_E = (\<lambda>TR_i step_i sample_i r. 0), randn_I = (\<lambda>TR_i step_i sample_i r. 0),
                  randn_dE = (\<lambda>TR_i step_i r s. 0), randn_dI = (\<lambda>TR_i step_i r s. 0),
                  randn_bold = (\<lambda>TR_i r. 0)\<rparr>"

text \<open>The result of a call that does not raise, with the loops kept folded.\<close>

definition forward_outputs :: "model \<Rightarrow> noise \<Rightarrow> fval list list \<Rightarrow> outputs" where
  "forward_outputs m nz hx =
     (let n = node_size m; T = TRs_per_window m; K = nat (steps_per_TR m);
          zeros = tab2 n T (\<lambda>r TR_i. Fin 0);
          hist0 = tab n (\<lambda>r. tab2 T K (\<lambda>TR_i step_i. Fin 0));
          nst0 = \<lparr>E_mean = map (\<lambda>row. row ! 0) hx, I_mean = map (\<lambda>row. row ! 1) hx,
                  E_hist = hist0, I_hist = hist0\<rparr>;
          hst0 = \<lparr>x_st = map (\<lambda>row. row ! 2) hx, f_st = map (\<lambda>row. row ! 3) hx,
                  v_st = map (\<lambda>row. row ! 4) hx, q_st = map (\<lambda>row. row ! 5) hx,
                  x_win = zeros, f_win = zeros, v_win = zeros, q_win = zeros, bold_win = zeros\<rparr>;
          nst = neural_loops m
                  ((if use_dynamic_boundary m then neural_step_dyn else neural_step_hard)
                     m (lap_adj m) nz) nst0;
          hst = hemo_loops m nz
                  ((if use_dynamic_boundary m then hemo_step_dyn else hemo_step_hard)
                     m (E_hist nst)) hst0
      in \<lparr>current_state =
             tab n (\<lambda>r. [E_mean nst ! r, I_mean nst ! r,
                          x_st hst ! r, f_st hst ! r, v_st hst ! r, q_st hst ! r]),
           bold_window = bold_win hst,
           E_window = map concat (E_hist nst),
           I_window = map concat (I_hist nst),
           x_window = x_win hst, f_window = f_win hst, v_window = v_win hst,
           q_window = q_win hst\<rparr>)"






fun is_pos :: "fval \<Rightarrow> bool" where
  "is_pos (Fin a) = (0 < a)"
| "is_pos PInf = False"
| "is_pos NInf = False"
| "is_pos NaN = False"



text \<open>
  \<open>hist_ok n T K t k P h\<close>: the history buffer \<open>h\<close> has shape \<open>n \<times> T \<times> K\<close> and the entries
  written before step \<open>k\<close> of period \<open>t\<close> satisfy \<open>P\<close>.
\<close>

definition hist_ok ::
  "nat \<Rightarrow> nat \<Rightarrow> nat \<Rightarrow> nat \<Rightarrow> nat \<Rightarrow> (fval \<Rightarrow> bool) \<Rightarrow> fval list list list \<Rightarrow> bool" where
  "hist_ok n T K t k P h =
     (length h = n \<and> (\<forall>r<n. length (h ! r) = T \<and> (\<forall>c<T. length (h ! r ! c) = K))
      \<and> (\<forall>r<n. \<forall>c<T. \<forall>j<K. c < t \<or> (c = t \<and> j < k) \<longrightarrow> P (h ! r ! c ! j)))"

text \<open>\<open>hemo_core n st\<close>: the four states have \<open>n\<close> entries, all real, with \<open>f\<close> and \<open>v\<close> positive.\<close>

definition hemo_core :: "nat \<Rightarrow> hemo \<Rightarrow> bool" where
  "hemo_core n st =
     (length (x_st st) = n \<and> length (f_st st) = n \<and> length (v_st st) = n \<and> length (q_st st) = n
      \<and> list_all is_fin (x_st st) \<and> list_all is_pos (f_st st) \<and> list_all is_pos (v_st st)
      \<and> list_all is_fin (q_st st))"








section \<open>Properties of the response function\<close>

lemma minus_fval_Fin [simp]: "Fin a - Fin b = Fin (a - b)"
  by (simp add: minus_fval_def)



section \<open>Tensor lemmas and the coupling matrix\<close>


lemma length_tab [simp]: "length (tab n f) = n"
  by (simp add: tab_def)

lemma nth_tab [simp]: "i < n \<Longrightarrow> tab n f ! i = f i"
  by (simp add: tab_def)


lemma length_tab2 [simp]: "length (tab2 n k f) = n"
  by (simp add: tab2_def)

lemma nth_tab2_row [simp]: "i < n \<Longrightarrow> tab2 n k f ! i = tab k (f i)"
  by (simp add: tab2_def)

lemma fsum_Nil [simp]: "fsum [] = Fin 0"
  by (simp add: fsum_def)

lemma fsum_Cons [simp]: "fsum (x # xs) = x + fsum xs"
  by (simp add: fsum_def)

lemma fsum_fin: "list_all is_fin xs \<Longrightarrow> fsum xs = Fin (sum_list (map fin_val xs))"
proof (induction xs)
  case Nil
  then show ?case by simp
next
  case (Cons x xs)
  then show ?case by (cases x) simp_all
qed

lemma is_fin_iff: "is_fin x \<longleftrightarrow> (\<exists>a. x = Fin a)"
  by (cases x) simp_all

lemma fval_add_commute: "(x::fval) + y = y + x"
  by (cases x; cases y) simp_all

lemma all_entries_tab2: "all_entries P (tab2 n k f) \<longleftrightarrow> (\<forall>i<n. \<forall>j<k. P (f i j))"
  by (auto simp: all_entries_def tab2_def tab_def list_all_iff)

lemma all_entries_nth: "all_entries P M \<Longrightarrow> i < length M \<Longrightarrow> j < length (M ! i) \<Longrightarrow> P (M ! i ! j)"
  by (simp add: all_entries_def list_all_length)

lemma all_entries_concat: "all_entries P M \<longleftrightarrow> list_all P (concat M)"
  by (auto simp: all_entries_def list_all_iff)

lemma sc_mod_nth:
  "i < length (sc m) \<Longrightarrow> j < length (sc m) \<Longrightarrow>
   sc_mod m ! i ! j = Fin (exp (gains_con m ! i ! j) * sc m ! i ! j)"
  by (simp add: sc_mod_def Let_def)

lemma sc_sym_nth:
  "i < length (sc m) \<Longrightarrow> j < length (sc m) \<Longrightarrow>
   sc_sym m ! i ! j = Fin (0.5 * (exp (gains_con m ! i ! j) * sc m ! i ! j
                                    + exp (gains_con m ! j ! i) * sc m ! j ! i))"
  by (simp add: sc_sym_def Let_def sc_mod_nth)

lemma sc_sym_fin: "all_entries is_fin (sc_sym m)"
  unfolding sc_sym_def Let_def all_entries_tab2 by (simp add: sc_mod_nth)

lemma sc_sym_shape: "is_shape (length (sc m)) (length (sc m)) (sc_sym m)"
  by (simp add: is_shape_def sc_sym_def Let_def tab2_def tab_def list_all_iff)


lemma sumsq_nonneg: "0 \<le> sumsq xs"
  by (auto simp: sumsq_def intro!: sum_list_nonneg)

lemma sumsq_zero_iff: "sumsq xs = 0 \<longleftrightarrow> (\<forall>x\<in>set xs. fin_val x = 0)"
  unfolding sumsq_def by (subst sum_list_nonneg_eq_0_iff) auto

lemma fsum_squares: "list_all is_fin xs \<Longrightarrow> fsum (map (\<lambda>x. x * x) xs) = Fin (sumsq xs)"
proof (induction xs)
  case Nil
  then show ?case by (simp add: sumsq_def)
next
  case (Cons x xs)
  then show ?case by (cases x) (simp_all add: sumsq_def)
qed

lemma norm_fin:
  "all_entries is_fin M \<Longrightarrow> linalg_norm M = Fin (sqrt (sumsq (concat M)))"
  by (simp add: linalg_norm_def all_entries_concat fsum_squares sumsq_nonneg)

lemma sumsq_scaled:
  "list_all is_fin xs \<Longrightarrow> c \<noteq> 0 \<Longrightarrow>
   list_all is_fin (map (\<lambda>b. b / Fin c) xs) \<and>
   sumsq (map (\<lambda>b. b / Fin c) xs) = sumsq xs / (c * c)"
proof (induction xs)
  case Nil
  then show ?case by (simp add: sumsq_def)
next
  case (Cons x xs)
  then show ?case by (cases x) (simp_all add: sumsq_def add_divide_distrib)
qed

lemma normalized_nan:
  assumes "all_entries is_fin M" "sumsq (concat M) = 0"
  shows "all_entries (\<lambda>x. x = NaN) (map (map (\<lambda>b. b / linalg_norm M)) M)"
proof -
  have n0: "linalg_norm M = Fin 0" using assms by (simp add: norm_fin)
  have z: "\<forall>x\<in>set (concat M). x = Fin 0"
  proof
    fix x assume x: "x \<in> set (concat M)"
    then have "is_fin x" using assms(1) by (auto simp: all_entries_def list_all_iff)
    moreover have "fin_val x = 0" using assms(2) x by (auto simp: sumsq_zero_iff)
    ultimately show "x = Fin 0" by (cases x) simp_all
  qed
  have "\<forall>x\<in>set (concat M). x / Fin 0 = NaN"
  proof
    fix x assume "x \<in> set (concat M)"
    with z have "x = Fin 0" by blast
    then show "x / Fin 0 = NaN" by simp
  qed
  then show ?thesis
    unfolding all_entries_concat map_concat[symmetric] n0
    by (simp add: list_all_iff)
qed

lemma normalized_unit:
  assumes "all_entries is_fin M" "sumsq (concat M) \<noteq> 0"
  shows "all_entries is_fin (map (map (\<lambda>b. b / linalg_norm M)) M)"
    and "linalg_norm (map (map (\<lambda>b. b / linalg_norm M)) M) = Fin 1"
proof -
  let ?c = "sqrt (sumsq (concat M))"
  have pos: "0 < sumsq (concat M)" using assms(2) sumsq_nonneg[of "concat M"] by linarith
  then have c: "?c \<noteq> 0" by simp
  have n: "linalg_norm M = Fin ?c" using assms(1) by (simp add: norm_fin)
  have fin: "list_all is_fin (concat M)" using assms(1) by (simp add: all_entries_concat)
  note sc = sumsq_scaled[OF fin c]
  show f: "all_entries is_fin (map (map (\<lambda>b. b / linalg_norm M)) M)"
    unfolding all_entries_concat map_concat[symmetric] n using sc by simp
  have "sumsq (concat (map (map (\<lambda>b. b / linalg_norm M)) M)) = 1"
    unfolding map_concat[symmetric] n using sc pos by simp
  then show "linalg_norm (map (map (\<lambda>b. b / linalg_norm M)) M) = Fin 1"
    using f by (simp add: norm_fin)
qed



lemma length_sc_sym [simp]: "length (sc_sym m) = length (sc m)"
  by (simp add: sc_sym_def Let_def)

lemma length_sc_sym_row [simp]: "i < length (sc m) \<Longrightarrow> length (sc_sym m ! i) = length (sc m)"
  by (simp add: sc_sym_def Let_def)

lemma length_normalized [simp]: "length (sc_mod_normalized m) = length (sc m)"
  by (simp add: sc_mod_normalized_def)

lemma length_normalized_row [simp]:
  "i < length (sc m) \<Longrightarrow> length (sc_mod_normalized m ! i) = length (sc m)"
  by (simp add: sc_mod_normalized_def)



lemma sc_sym_zero_iff:
  "all_entries (\<lambda>b. b = Fin 0) (sc_sym m) \<longleftrightarrow> sumsq (concat (sc_sym m)) = 0"
proof -
  have "\<And>x. x \<in> set (concat (sc_sym m)) \<Longrightarrow> (x = Fin 0) = (fin_val x = 0)"
  proof -
    fix x assume "x \<in> set (concat (sc_sym m))"
    then have "is_fin x" using sc_sym_fin[of m] by (auto simp: all_entries_def list_all_iff)
    then show "(x = Fin 0) = (fin_val x = 0)" by (cases x) simp_all
  qed
  then show ?thesis
    by (simp add: all_entries_concat sumsq_zero_iff list_all_iff)
qed

lemma coupling_nan:
  "all_entries (\<lambda>b. b = Fin 0) (sc_sym m) \<Longrightarrow> all_entries (\<lambda>x. x = NaN) (sc_mod_normalized m)"
  unfolding sc_mod_normalized_def
  by (rule normalized_nan[OF sc_sym_fin]) (simp add: sc_sym_zero_iff)

lemma coupling_unit:
  assumes "\<not> all_entries (\<lambda>b. b = Fin 0) (sc_sym m)"
  shows "all_entries is_fin (sc_mod_normalized m)"
    and "linalg_norm (sc_mod_normalized m) = Fin 1"
  unfolding sc_mod_normalized_def
  using normalized_unit[OF sc_sym_fin, of m] assms by (simp_all add: sc_sym_zero_iff)

lemma norm_all_nan:
  "M \<noteq> [] \<Longrightarrow> hd M \<noteq> [] \<Longrightarrow> all_entries (\<lambda>x. x = NaN) M \<Longrightarrow> linalg_norm M = NaN"
  by (cases M; cases "hd M") (auto simp: all_entries_def linalg_norm_def)

lemma unit_norm_iff:
  "linalg_norm (sc_mod_normalized m) = Fin 1 \<longleftrightarrow> \<not> all_entries (\<lambda>b. b = Fin 0) (sc_sym m)"
proof
  assume u: "linalg_norm (sc_mod_normalized m) = Fin 1"
  show "\<not> all_entries (\<lambda>b. b = Fin 0) (sc_sym m)"
  proof
    assume z: "all_entries (\<lambda>b. b = Fin 0) (sc_sym m)"
    show False
    proof (cases "length (sc m) = 0")
      case True
      then have "sc_mod_normalized m = []" by (simp add: sc_mod_normalized_def sc_sym_def tab2_def tab_def)
      with u show False by (simp add: linalg_norm_def)
    next
      case False
      then have 0: "0 < length (sc m)" by simp
      have "sc_mod_normalized m \<noteq> []" using 0 by (metis length_normalized length_0_conv less_numeral_extra(3))
      moreover have "hd (sc_mod_normalized m) \<noteq> []"
        using 0 length_normalized_row[of 0 m]
        by (metis calculation hd_conv_nth length_0_conv less_numeral_extra(3))
      ultimately have "linalg_norm (sc_mod_normalized m) = NaN"
        using coupling_nan[OF z] by (rule norm_all_nan)
      with u show False by simp
    qed
  qed
next
  assume "\<not> all_entries (\<lambda>b. b = Fin 0) (sc_sym m)"
  then show "linalg_norm (sc_mod_normalized m) = Fin 1" by (rule coupling_unit)
qed


lemma fsum_tab_fin: "fsum (tab n (\<lambda>j. Fin (r j))) = Fin (sum r {0..<n})"
proof -
  have "list_all is_fin (tab n (\<lambda>j. Fin (r j)))" by (simp add: tab_def list_all_iff)
  then have "fsum (tab n (\<lambda>j. Fin (r j))) = Fin (sum_list (map fin_val (tab n (\<lambda>j. Fin (r j)))))"
    by (rule fsum_fin)
  also have "map fin_val (tab n (\<lambda>j. Fin (r j))) = map r [0..<n]"
    by (simp add: tab_def)
  also have "sum_list (map r [0..<n]) = sum r {0..<n}"
    by (simp add: interv_sum_list_conv_sum_set_nat)
  finally show ?thesis .
qed

lemma fsum_fin_nth:
  assumes "list_all is_fin xs"
  shows "fsum xs = Fin (sum (\<lambda>j. fin_val (xs ! j)) {0..<length xs})"
proof -
  have "fsum xs = Fin (sum_list (map fin_val xs))" using assms by (rule fsum_fin)
  also have "sum_list (map fin_val xs) = sum (\<lambda>j. fin_val (xs ! j)) {0..<length xs}"
    by (simp add: sum_list_sum_nth)
  finally show ?thesis .
qed

lemma lap_adj_laplacian:
  assumes "use_Laplacian m" "1 < length (sc m)"
  shows "lap_adj m = tab2 (length (sc m)) (length (sc m))
           (\<lambda>i j. sc_mod_normalized m ! i ! j - torch_diag (sum1 (sc_mod_normalized m)) ! i ! j)"
  using assms by (simp add: lap_adj_def Let_def minus_fval_def fval_add_commute)

lemma laplacian_row_sum:
  assumes L: "use_Laplacian m" and n: "1 < length (sc m)"
    and fin: "all_entries is_fin (sc_mod_normalized m)" and i: "i < length (sc m)"
  shows "fsum (lap_adj m ! i) = Fin 0"
proof -
  let ?n = "length (sc m)"
  let ?A = "sc_mod_normalized m"
  let ?a = "\<lambda>j. fin_val (?A ! i ! j)"
  have row_fin: "list_all is_fin (?A ! i)"
    using fin i by (simp add: all_entries_def list_all_length)
  have rs: "sum1 ?A ! i = Fin (sum ?a {0..<?n})"
    using i fsum_fin_nth[OF row_fin] by (simp add: sum1_def)
  have ent: "\<And>j. j < ?n \<Longrightarrow> ?A ! i ! j = Fin (?a j)"
  proof -
    fix j assume "j < ?n"
    then have "is_fin (?A ! i ! j)" using row_fin i by (simp add: list_all_length)
    then show "?A ! i ! j = Fin (?a j)" by (cases "?A ! i ! j") simp_all
  qed
  have "lap_adj m ! i = tab ?n (\<lambda>j. Fin (- (if i = j then sum ?a {0..<?n} else 0) + ?a j))"
  proof -
    have "\<And>j. j < ?n \<Longrightarrow>
            - (torch_diag (sum1 ?A) ! i ! j) + ?A ! i ! j
            = Fin (- (if i = j then sum ?a {0..<?n} else 0) + ?a j)"
    proof -
      fix j assume j: "j < ?n"
      have d: "torch_diag (sum1 ?A) ! i ! j = (if i = j then Fin (sum ?a {0..<?n}) else Fin 0)"
        using i j rs by (auto simp: torch_diag_def sum1_def)
      obtain aj where aj: "?A ! i ! j = Fin aj"
        using ent[OF j] by blast
      show "- (torch_diag (sum1 ?A) ! i ! j) + ?A ! i ! j
            = Fin (- (if i = j then sum ?a {0..<?n} else 0) + ?a j)"
        unfolding d aj by simp
    qed
    then show ?thesis
      using L n i by (simp add: lap_adj_def Let_def tab_def)
  qed
  then have F: "fsum (lap_adj m ! i)
             = Fin (sum (\<lambda>j. - (if i = j then sum ?a {0..<?n} else 0) + ?a j) {0..<?n})"
    by (simp add: fsum_tab_fin)
  have "sum (\<lambda>j. - (if i = j then sum ?a {0..<?n} else 0) + ?a j) {0..<?n}
             = - sum (\<lambda>j. if i = j then sum ?a {0..<?n} else 0) {0..<?n} + sum ?a {0..<?n}"
    by (simp only: sum.distrib sum_negf)
  also have "sum (\<lambda>j. if i = j then sum ?a {0..<?n} else 0) {0..<?n} = sum ?a {0..<?n}"
    using i by simp
  finally have "sum (\<lambda>j. - (if i = j then sum ?a {0..<?n} else 0) + ?a j) {0..<?n} = 0"
    by simp
  with F show ?thesis by simp
qed


lemma add_NaN [simp]: "(x::fval) + NaN = NaN" "NaN + x = NaN"
  by (cases x; simp)+

lemma mul_NaN [simp]: "(x::fval) * NaN = NaN" "NaN * x = NaN"
  by (cases x; simp)+

lemma div_NaN [simp]: "(x::fval) / NaN = NaN" "NaN / x = NaN"
  by (cases x; simp)+

lemma minus_NaN [simp]: "(x::fval) - NaN = NaN" "NaN - x = NaN"
  by (simp_all add: minus_fval_def)


lemma is_shape_nth: "is_shape n k M \<Longrightarrow> i < n \<Longrightarrow> length (M ! i) = k"
  by (simp add: is_shape_def list_all_length)


lemma positive_sym_nonzero:
  assumes sh: "is_shape (length (sc m)) (length (sc m)) (sc m)"
    and nn: "all_entries (\<lambda>s. 0 \<le> s) (sc m)" and pos: "has_positive (sc m)"
  shows "\<not> all_entries (\<lambda>b. b = Fin 0) (sc_sym m)"
proof
  assume z: "all_entries (\<lambda>b. b = Fin 0) (sc_sym m)"
  let ?n = "length (sc m)"
  from pos obtain row s where row: "row \<in> set (sc m)" and s: "s \<in> set row" "0 < s"
    by (auto simp: has_positive_def list_ex_iff)
  then obtain i where i: "i < ?n" "sc m ! i = row" by (auto simp: in_set_conv_nth)
  from s obtain j where j: "j < length row" "row ! j = s" by (auto simp: in_set_conv_nth)
  have jn: "j < ?n" using j i is_shape_nth[OF sh i(1)] by simp
  have ge: "0 \<le> sc m ! j ! i"
    using all_entries_nth[OF nn, of j i] is_shape_nth[OF sh jn] i jn by simp
  have "sc_sym m ! i ! j = Fin 0"
    using all_entries_nth[OF z, of i j] i jn by simp
  then have "exp (gains_con m ! i ! j) * sc m ! i ! j + exp (gains_con m ! j ! i) * sc m ! j ! i = 0"
    using i jn by (simp add: sc_sym_nth)
  moreover have "0 < exp (gains_con m ! i ! j) * sc m ! i ! j" using s j i by simp
  moreover have "0 \<le> exp (gains_con m ! j ! i) * sc m ! j ! i" using ge by simp
  ultimately show False by linarith
qed


text \<open>
  C7.  With the Laplacian enabled, at least two regions, and \<open>A = sc_mod_normalized\<close> of
  unit norm, the coupling operator is \<open>A - diag (rowsum A)\<close> and each of its rows sums
  to 0.
\<close>

theorem laplacian_rows_sum_to_zero:
  assumes "is_shape (length (sc m)) (length (sc m)) (sc m)"
    and "is_shape (length (sc m)) (length (sc m)) (gains_con m)"
    and "use_Laplacian m" and "1 < length (sc m)"
    and "linalg_norm (sc_mod_normalized m) = Fin 1"
  shows "lap_adj m = tab2 (length (sc m)) (length (sc m))
           (\<lambda>i j. sc_mod_normalized m ! i ! j - torch_diag (sum1 (sc_mod_normalized m)) ! i ! j)
         \<and> sum1 (lap_adj m) = replicate (length (sc m)) (Fin 0)"
proof
  show "lap_adj m = tab2 (length (sc m)) (length (sc m))
           (\<lambda>i j. sc_mod_normalized m ! i ! j - torch_diag (sum1 (sc_mod_normalized m)) ! i ! j)"
    using assms(3,4) by (rule lap_adj_laplacian)
  have fin: "all_entries is_fin (sc_mod_normalized m)"
    using assms(5) coupling_unit(1)[of m] by (simp add: unit_norm_iff)
  have len: "length (lap_adj m) = length (sc m)"
    using assms(3,4) by (simp add: lap_adj_def Let_def)
  show "sum1 (lap_adj m) = replicate (length (sc m)) (Fin 0)"
  proof (rule nth_equalityI)
    show "length (sum1 (lap_adj m)) = length (replicate (length (sc m)) (Fin 0))"
      using len by (simp add: sum1_def)
  next
    fix i assume "i < length (sum1 (lap_adj m))"
    then have i: "i < length (sc m)" using len by (simp add: sum1_def)
    then show "sum1 (lap_adj m) ! i = replicate (length (sc m)) (Fin 0) ! i"
      using laplacian_row_sum[OF assms(3,4) fin i] len by (simp add: sum1_def)
  qed
qed


lemma example_shapes:
  "is_shape (length (sc example_model)) (length (sc example_model)) (sc example_model)"
  "is_shape (length (sc example_model)) (length (sc example_model)) (gains_con example_model)"
  "all_entries (\<lambda>s. 0 \<le> s) (sc example_model)"
  "has_positive (sc example_model)"
  "1 < length (sc example_model)"
  "use_Laplacian example_model"
  by (simp_all add: example_model_def is_shape_def all_entries_def has_positive_def)




theorem laplacian_rows_sum_to_zero_witness:
  "is_shape (length (sc example_model)) (length (sc example_model)) (sc example_model)
   \<and> is_shape (length (sc example_model)) (length (sc example_model)) (gains_con example_model)
   \<and> use_Laplacian example_model \<and> 1 < length (sc example_model)
   \<and> linalg_norm (sc_mod_normalized example_model) = Fin 1
   \<and> sum1 (lap_adj example_model) = replicate (length (sc example_model)) (Fin 0)"
proof -
  have u: "linalg_norm (sc_mod_normalized example_model) = Fin 1"
    unfolding unit_norm_iff
    using positive_sym_nonzero[OF example_shapes(1,3,4)] .
  have "sum1 (lap_adj example_model) = replicate (length (sc example_model)) (Fin 0)"
    using laplacian_rows_sum_to_zero[OF example_shapes(1,2,6,5) u] by (rule conjunct2)
  then show ?thesis
    using example_shapes u by simp
qed

lemma setattr_frame [simp]:
  "gains_con (setattr name a m) = gains_con m"
  "node_size (setattr name a m) = node_size m"
  "use_fit_gains (setattr name a m) = use_fit_gains m"
  "use_Bifurcation (setattr name a m) = use_Bifurcation m"
  "use_Gaussian_EI (setattr name a m) = use_Gaussian_EI m"
  "param (setattr name a m) = param m"
  by (simp_all add: setattr_def)

lemma param_step_frame:
  assumes "param_step draw name (m, reg, hyp) = (m', reg', hyp')"
  shows "gains_con m' = gains_con m" "node_size m' = node_size m"
    and "New a \<in> set reg' \<longleftrightarrow> New a \<in> set reg"
    and "New a \<in> set hyp' \<longleftrightarrow> New a \<in> set hyp"
  using assms
  by (auto simp: param_step_def Let_def split: option.splits entry.splits if_splits prod.splits)

lemma param_fold_frame:
  assumes "fold (param_step draw) names (m, reg, hyp) = (m', reg', hyp')"
  shows "gains_con m' = gains_con m \<and> node_size m' = node_size m
         \<and> (New a \<in> set reg' \<longleftrightarrow> New a \<in> set reg)
         \<and> (New a \<in> set hyp' \<longleftrightarrow> New a \<in> set hyp)"
  using assms
proof (induction names arbitrary: m reg hyp)
  case Nil
  then show ?case by simp
next
  case (Cons name names)
  obtain m1 reg1 hyp1 where s: "param_step draw name (m, reg, hyp) = (m1, reg1, hyp1)"
    by (cases "param_step draw name (m, reg, hyp)") auto
  from Cons.prems have "fold (param_step draw) names (m1, reg1, hyp1) = (m', reg', hyp')"
    by (simp add: s)
  from Cons.IH[OF this] param_step_frame[OF s] show ?case by simp
qed

lemma setModelParameters_gains:
  "\<exists>fp. params_fitted (setModelParameters draw m) = Some fp
     \<and> gains_con (setModelParameters draw m) =
         tab2 (node_size m) (node_size m) (\<lambda>i j. if use_fit_gains m then 0 + 0.05 else 0)
     \<and> (New ''gains_con'' \<in> set (modelparameter fp) \<longleftrightarrow> use_fit_gains m)
     \<and> New ''gains_con'' \<notin> set (hyperparameter fp)"
proof -
  define h1 where "h1 = (if use_Gaussian_EI m then
      [New ''E_m'', New ''I_m'', New ''v_m'', New ''q_m'', New ''E_v_inv'', New ''I_v_inv'',
       New ''v_v_inv'', New ''v_v_inv''] else [])"
  define m1 where "m1 = (if use_Gaussian_EI m then
      setattr ''q_v_inv'' 100 (setattr ''v_v_inv'' 100 (setattr ''I_v_inv'' 2500
        (setattr ''E_v_inv'' 2500 (setattr ''q_m'' 1.0 (setattr ''v_m'' 1.0
          (setattr ''I_m'' 0.1 (setattr ''E_m'' 0.16 m))))))) else m)"
  define h2 where "h2 = (if use_Bifurcation m1 then
      h1 @ [New ''sup_ca'', New ''sup_cb'', New ''sup_cc''] else h1)"
  define m2 where "m2 = (if use_Bifurcation m1 then
      setattr ''sup_cc'' 10 (setattr ''sup_cb'' 20 (setattr ''sup_ca'' 0.5 m1)) else m1)"
  define r3 where "r3 = (if use_fit_gains m2 then [New ''gains_con''] else [])"
  define m3 where "m3 = (if use_fit_gains m2
      then m2\<lparr>gains_con := tab2 (node_size m2) (node_size m2) (\<lambda>i j. 0 + 0.05)\<rparr>
      else m2\<lparr>gains_con := tab2 (node_size m2) (node_size m2) (\<lambda>i j. 0)\<rparr>)"
  define names where "names = filter (\<lambda>a. take 2 a \<noteq> ''__'') (map fst (param m3))"
  obtain m4 r4 h4 where f: "fold (param_step draw) names (m3, r3, h2) = (m4, r4, h4)"
    by (cases "fold (param_step draw) names (m3, r3, h2)") auto
  have eq: "setModelParameters draw m =
        m4\<lparr>params_fitted := Some \<lparr>modelparameter = r4, hyperparameter = h4\<rparr>\<rparr>"
    using f
    by (simp add: setModelParameters_def Let_def h1_def m1_def h2_def m2_def r3_def m3_def
          names_def split: if_splits)
  have fl: "use_fit_gains m2 = use_fit_gains m" "node_size m2 = node_size m"
    by (simp_all add: m2_def m1_def)
  note fr = param_fold_frame[OF f, of "''gains_con''"]
  have "gains_con m4 = tab2 (node_size m) (node_size m) (\<lambda>i j. if use_fit_gains m then 0 + 0.05 else 0)"
    using fr fl by (simp add: m3_def)
  moreover have "New ''gains_con'' \<in> set r4 \<longleftrightarrow> use_fit_gains m"
    using fr fl by (simp add: r3_def)
  moreover have "New ''gains_con'' \<notin> set h4"
    using fr by (simp add: h2_def h1_def)
  ultimately show ?thesis unfolding eq by simp
qed

text \<open>
  C5 (amended).  \<^verbatim>\<open>setModelParameters\<close> creates the connection gains as a
  \<open>node_size \<times> node_size\<close> matrix: with gain fitting every entry is 0.05 and the matrix is
  registered in \<open>modelparameter\<close>; without it every entry is 0 and the matrix is in neither
  list.  The container is taken to hold no entry named \<open>gains_con\<close>.
\<close>

theorem gains_con_materialized:
  assumes "''gains_con'' \<notin> set (map fst (param m))"
  shows "\<exists>fp. params_fitted (setModelParameters draw m) = Some fp
     \<and> is_shape (node_size m) (node_size m) (gains_con (setModelParameters draw m))
     \<and> (if use_fit_gains m
        then all_entries (\<lambda>a. a = 0.05) (gains_con (setModelParameters draw m))
             \<and> New ''gains_con'' \<in> set (modelparameter fp)
        else all_entries (\<lambda>a. a = 0) (gains_con (setModelParameters draw m))
             \<and> New ''gains_con'' \<notin> set (modelparameter fp)
             \<and> New ''gains_con'' \<notin> set (hyperparameter fp))"
proof -
  from setModelParameters_gains[of draw m] obtain fp where
    fp: "params_fitted (setModelParameters draw m) = Some fp"
        "gains_con (setModelParameters draw m) =
           tab2 (node_size m) (node_size m) (\<lambda>i j. if use_fit_gains m then 0 + 0.05 else 0)"
        "New ''gains_con'' \<in> set (modelparameter fp) \<longleftrightarrow> use_fit_gains m"
        "New ''gains_con'' \<notin> set (hyperparameter fp)"
    by blast
  have sh: "is_shape (node_size m) (node_size m) (gains_con (setModelParameters draw m))"
    unfolding fp(2) by (simp add: is_shape_def tab2_def tab_def list_all_iff)
  show ?thesis
    using fp sh by (auto simp: all_entries_tab2)
qed

text \<open>
  C5 as stated fails: with gain fitting enabled the created matrix is not zero.
\<close>

theorem fitted_gains_start_at_005:
  "use_fit_gains fit_gains_model
   \<and> \<not> all_entries (\<lambda>a. a = 0) (gains_con (setModelParameters (\<lambda>name. 0) fit_gains_model))"
proof -
  have "gains_con (setModelParameters (\<lambda>name. 0) fit_gains_model) = [[0.05, 0.05], [0.05, 0.05]]"
    using setModelParameters_gains[of "\<lambda>name. 0" fit_gains_model]
    by (auto simp: fit_gains_model_def example_model_def tab2_def tab_def upt_rec)
  then show ?thesis by (simp add: all_entries_def fit_gains_model_def example_model_def)
qed

theorem gains_con_materialized_witness:
  "''gains_con'' \<notin> set (map fst (param fit_gains_model))
   \<and> use_fit_gains fit_gains_model
   \<and> all_entries (\<lambda>a. a = 0.05) (gains_con (setModelParameters (\<lambda>name. 0) fit_gains_model))"
proof -
  have p: "''gains_con'' \<notin> set (map fst (param fit_gains_model))"
    by (simp add: fit_gains_model_def example_model_def)
  have u: "use_fit_gains fit_gains_model"
    by (simp add: fit_gains_model_def example_model_def)
  from gains_con_materialized[OF p, of "\<lambda>name. 0"] u show ?thesis using p by auto
qed

text \<open>
  C4.  With \<open>use_Gaussian_EI\<close> the Parameter \<open>q_v_inv\<close> is created (the attribute is set)
  but is in neither list, and \<open>v_v_inv\<close> is in \<open>hyperparameter\<close> twice: the result of
  \<^verbatim>\<open>setModelParameters\<close> on the example model with that flag set and an empty container.
\<close>

theorem gaussian_hyperparameters_slip:
  "params_fitted (setModelParameters (\<lambda>name. 0) gaussian_model) =
     Some \<lparr>modelparameter = [],
           hyperparameter = [New ''E_m'', New ''I_m'', New ''v_m'', New ''q_m'', New ''E_v_inv'',
                             New ''I_v_inv'', New ''v_v_inv'', New ''v_v_inv'']\<rparr>
   \<and> attrs (setModelParameters (\<lambda>name. 0) gaussian_model) ''q_v_inv'' = Some 100
   \<and> New ''q_v_inv'' \<notin> set [New ''E_m'', New ''I_m'', New ''v_m'', New ''q_m'', New ''E_v_inv'',
                             New ''I_v_inv'', New ''v_v_inv'', New ''v_v_inv'']
   \<and> \<not> distinct [New ''E_m'', New ''I_m'', New ''v_m'', New ''q_m'', New ''E_v_inv'',
                   New ''I_v_inv'', New ''v_v_inv'', New ''v_v_inv'']"
  by (simp add: setModelParameters_def gaussian_model_def example_model_def Let_def setattr_def)

lemma coupling_frame [simp]:
  "sc_mod (m\<lparr>sc_fitted := X\<rparr>) = sc_mod m"
  "sc_sym (m\<lparr>sc_fitted := X\<rparr>) = sc_sym m"
  "sc_mod_normalized (m\<lparr>sc_fitted := X\<rparr>) = sc_mod_normalized m"
  "lap_adj (m\<lparr>sc_fitted := X\<rparr>) = lap_adj m"
  by (simp_all add: sc_mod_def sc_sym_def sc_mod_normalized_def lap_adj_def)

lemma neural_frame [simp]:
  "draw_samples (m\<lparr>sc_fitted := X\<rparr>) = draw_samples m"
  "input_IE (m\<lparr>sc_fitted := X\<rparr>) = input_IE m"
  "input_II (m\<lparr>sc_fitted := X\<rparr>) = input_II m"
  "next_E (m\<lparr>sc_fitted := X\<rparr>) = next_E m"
  "next_I (m\<lparr>sc_fitted := X\<rparr>) = next_I m"
  by (simp_all add: fun_eq_iff draw_samples_def input_IE_def input_II_def next_E_def next_I_def)

lemma neural_step_frame [simp]:
  "neural_step_dyn (m\<lparr>sc_fitted := X\<rparr>) = neural_step_dyn m"
  "neural_step_hard (m\<lparr>sc_fitted := X\<rparr>) = neural_step_hard m"
  "neural_loops (m\<lparr>sc_fitted := X\<rparr>) = neural_loops m"
  by (simp_all add: fun_eq_iff neural_step_dyn_def neural_step_hard_def neural_loops_def)

lemma hemo_frame [simp]:
  "x_next (m\<lparr>sc_fitted := X\<rparr>) = x_next m"
  "f_next (m\<lparr>sc_fitted := X\<rparr>) = f_next m"
  "v_next (m\<lparr>sc_fitted := X\<rparr>) = v_next m"
  "q_next (m\<lparr>sc_fitted := X\<rparr>) = q_next m"
  "bold_sample (m\<lparr>sc_fitted := X\<rparr>) = bold_sample m"
  by (simp_all add: fun_eq_iff x_next_def f_next_def v_next_def q_next_def bold_sample_def)

lemma hemo_step_frame [simp]:
  "hemo_step_dyn (m\<lparr>sc_fitted := X\<rparr>) = hemo_step_dyn m"
  "hemo_step_hard (m\<lparr>sc_fitted := X\<rparr>) = hemo_step_hard m"
  "end_of_TR (m\<lparr>sc_fitted := X\<rparr>) = end_of_TR m"
  "hemo_loops (m\<lparr>sc_fitted := X\<rparr>) = hemo_loops m"
  by (simp_all add: fun_eq_iff hemo_step_dyn_def hemo_step_hard_def end_of_TR_def hemo_loops_def)

lemma integration_forward_eq:
  "integration_forward m nz ext hx hE =
     (if steps_per_TR m < 0 \<or> node_size m = 0 then Inl RuntimeError
      else Inr ((forward_outputs m nz hx, hE),
                if 1 < length (sc m) then m\<lparr>sc_fitted := sc_mod_normalized m\<rparr> else m))"
  by (simp add: integration_forward_def forward_outputs_def Let_def)

lemma forward_outputs_frame [simp]:
  "forward_outputs (m\<lparr>sc_fitted := X\<rparr>) = forward_outputs m"
  by (simp add: fun_eq_iff forward_outputs_def)

text \<open>
  C8 (amended).  A call that returns leaves the model as it was except for \<open>sc_fitted\<close>,
  which holds the normalized coupling matrix when there are at least two regions; the
  coupling operator and the whole result are computed from the gains and the structural
  matrix and do not depend on the \<open>sc_fitted\<close> a previous call stored.
\<close>

theorem coupling_recomputed_and_stored:
  assumes "integration_forward m nz ext hx hE = Inr ((out, h), m')"
  shows "m' = (if 1 < length (sc m) then m\<lparr>sc_fitted := sc_mod_normalized m\<rparr> else m)
         \<and> lap_adj (m\<lparr>sc_fitted := X\<rparr>) = lap_adj m
         \<and> integration_forward (m\<lparr>sc_fitted := X\<rparr>) nz ext hx hE =
             Inr ((out, h), if 1 < length (sc m) then m' else m'\<lparr>sc_fitted := X\<rparr>)"
  using assms by (auto simp: integration_forward_eq split: if_splits)

lemma example_old_sc_fitted:
  "sc_mod_normalized example_model \<noteq> sc_fitted example_model"
proof
  assume "sc_mod_normalized example_model = sc_fitted example_model"
  then have "linalg_norm (sc_fitted example_model) = Fin 1"
    using positive_sym_nonzero[OF example_shapes(1,3,4)] by (simp add: unit_norm_iff[symmetric])
  then show False
    by (simp add: example_model_def linalg_norm_def)
qed

text \<open>
  C8 as stated fails: the call on the example model stores the normalized coupling matrix
  in \<open>sc_fitted\<close>, which differs from the value set at construction.
\<close>

theorem forward_stores_sc_fitted:
  "integration_forward example_model zero_noise () example_hx () =
     Inr ((forward_outputs example_model zero_noise example_hx, ()),
          example_model\<lparr>sc_fitted := sc_mod_normalized example_model\<rparr>)
   \<and> sc_fitted (example_model\<lparr>sc_fitted := sc_mod_normalized example_model\<rparr>)
       \<noteq> sc_fitted example_model"
  using example_old_sc_fitted
  by (simp add: integration_forward_eq) (simp add: example_model_def)

theorem coupling_recomputed_and_stored_witness:
  "integration_forward example_model zero_noise () example_hx () =
     Inr ((forward_outputs example_model zero_noise example_hx, ()),
          example_model\<lparr>sc_fitted := sc_mod_normalized example_model\<rparr>)
   \<and> integration_forward (example_model\<lparr>sc_fitted := []\<rparr>) zero_noise () example_hx () =
     Inr ((forward_outputs example_model zero_noise example_hx, ()),
          example_model\<lparr>sc_fitted := sc_mod_normalized example_model\<rparr>)"
proof -
  have e: "integration_forward example_model zero_noise () example_hx () =
     Inr ((forward_outputs example_model zero_noise example_hx, ()),
          example_model\<lparr>sc_fitted := sc_mod_normalized example_model\<rparr>)"
    by (simp add: integration_forward_eq) (simp add: example_model_def)
  have l: "1 < length (sc example_model)" by (simp add: example_model_def)
  from coupling_recomputed_and_stored[OF e, of "[]"] l e show ?thesis by simp
qed


lemma is_shape_tab2 [simp]: "is_shape n k (tab2 n k f)"
  by (simp add: is_shape_def tab2_def tab_def list_all_iff)










lemma length_bold_sample [simp]: "length (bold_sample m nz t st) = node_size m"
  by (simp add: bold_sample_def)








lemma fin_add [simp]: "is_fin a \<Longrightarrow> is_fin b \<Longrightarrow> is_fin (a + b)"
  by (cases a; cases b) simp_all

lemma fin_mul [simp]: "is_fin a \<Longrightarrow> is_fin b \<Longrightarrow> is_fin (a * b)"
  by (cases a; cases b) simp_all

lemma fin_neg [simp]: "is_fin a \<Longrightarrow> is_fin (- a)"
  by (cases a) simp_all

lemma fin_sub [simp]: "is_fin a \<Longrightarrow> is_fin b \<Longrightarrow> is_fin (a - b)"
  by (simp add: minus_fval_def)

lemma fin_abs [simp]: "is_fin a \<Longrightarrow> is_fin \<bar>a\<bar>"
  by (cases a) simp_all

lemma fin_exp [simp]: "is_fin a \<Longrightarrow> is_fin (torch_exp a)"
  by (cases a) simp_all

lemma fin_tanh [simp]: "is_fin a \<Longrightarrow> is_fin (torch_tanh a)"
  by (cases a) simp_all

lemma fin_relu [simp]: "is_fin a \<Longrightarrow> is_fin (relu a)"
  by (cases a) simp_all

lemma fin_reciprocal [simp]: "c \<noteq> 0 \<Longrightarrow> torch_reciprocal (Fin c) = Fin (1 / c)"
  by (simp add: torch_reciprocal_def)

lemma fin_sqrt [simp]: "0 \<le> c \<Longrightarrow> torch_sqrt (Fin c) = Fin (sqrt c)"
  by simp















lemma length_mask_floor [simp]: "length (mask_floor c xs) = length xs"
  by (simp add: mask_floor_def)

lemma mask_floor_fin: "list_all is_fin xs \<Longrightarrow> list_all is_fin (mask_floor c xs)"
  by (simp add: mask_floor_def list_all_length)
















lemma hist_ok_shape_window:
  assumes "hist_ok n T K t k P h"
  shows "length (map concat h) = n"
  using assms by (simp add: hist_ok_def)









lemma length_hemo_next [simp]:
  "length (x_next m Eh t k st) = node_size m" "length (f_next m st) = node_size m"
  "length (v_next m st) = node_size m" "length (q_next m st) = node_size m"
  by (simp_all add: x_next_def f_next_def v_next_def q_next_def Let_def)






lemma end_of_TR_core [simp]:
  "x_st (end_of_TR m nz t st) = x_st st" "f_st (end_of_TR m nz t st) = f_st st"
  "v_st (end_of_TR m nz t st) = v_st st" "q_st (end_of_TR m nz t st) = q_st st"
  by (simp_all add: end_of_TR_def)

lemma hemo_core_end_of_TR [simp]: "hemo_core n (end_of_TR m nz t st) = hemo_core n st"
  by (simp add: hemo_core_def)












lemma hemo_step_hard_windows [simp]:
  "f_win (hemo_step_hard m Eh t k st) = f_win st"
  "v_win (hemo_step_hard m Eh t k st) = v_win st"
  "q_win (hemo_step_hard m Eh t k st) = q_win st"
  by (simp_all add: hemo_step_hard_def)









lemma h_tf_nan [simp]: "h_tf a b d NaN = NaN"
  by (simp add: h_tf_def)

lemma flt_nan [simp]: "flt NaN y = False"
  by simp










end
